theory Spec2Isabelle
  imports Main "HOL-Library.Sublist"
begin

section \<open>Owner-swap log analyzer (ownerswap\_analyzer.py)\<close>

text \<open>
  The analyzer reads a device log line by line, turns each line into at most one
  protocol event and drives a nine-state machine with it. States and events are
  plain Python integers in the source, so they are integers here; diagnostics are
  strings.
\<close>

subsection \<open>State and event constants\<close>

definition STATE_WAITING_FOR_OWNER_PAIRING :: int where
  "STATE_WAITING_FOR_OWNER_PAIRING = 0"
definition STATE_OWNER_PAIRING_STARTED :: int where
  "STATE_OWNER_PAIRING_STARTED = 1"
definition STATE_OWNER_PAIRING_COMPLETED :: int where
  "STATE_OWNER_PAIRING_COMPLETED = 2"
definition STATE_OWNER_SWAP_INITIATED :: int where
  "STATE_OWNER_SWAP_INITIATED = 3"
definition STATE_OLD_OWNER_DISCONNECTED :: int where
  "STATE_OLD_OWNER_DISCONNECTED = 4"
definition STATE_OWNER_SWAP_COMPLETED :: int where
  "STATE_OWNER_SWAP_COMPLETED = 5"
definition STATE_BOND_DELETED_STILL_CONNECTED :: int where
  "STATE_BOND_DELETED_STILL_CONNECTED = 6"
definition STATE_NEW_OWNER_DISCONNECTED_BOND_STILL_EXIST :: int where
  "STATE_NEW_OWNER_DISCONNECTED_BOND_STILL_EXIST = 7"
definition STATE_OWNER_SWAP_SUCCESS :: int where
  "STATE_OWNER_SWAP_SUCCESS = 8"

definition EVENT_OWNER_PAIRING_STARTED :: int where
  "EVENT_OWNER_PAIRING_STARTED = 0"
definition EVENT_OWNER_PAIRING_COMPLETED :: int where
  "EVENT_OWNER_PAIRING_COMPLETED = 1"
definition EVENT_OLD_OWNER_DISCONNECTED :: int where
  "EVENT_OLD_OWNER_DISCONNECTED = 2"
definition EVENT_BOND_DELETION :: int where
  "EVENT_BOND_DELETION = 3"
definition EVENT_BOND_DELETION_FAILED :: int where
  "EVENT_BOND_DELETION_FAILED = 4"
definition EVENT_NEW_OWNER_DISCONNECTED :: int where
  "EVENT_NEW_OWNER_DISCONNECTED = 5"

lemmas STATE_defs =
  STATE_WAITING_FOR_OWNER_PAIRING_def STATE_OWNER_PAIRING_STARTED_def
  STATE_OWNER_PAIRING_COMPLETED_def STATE_OWNER_SWAP_INITIATED_def
  STATE_OLD_OWNER_DISCONNECTED_def STATE_OWNER_SWAP_COMPLETED_def
  STATE_BOND_DELETED_STILL_CONNECTED_def
  STATE_NEW_OWNER_DISCONNECTED_BOND_STILL_EXIST_def STATE_OWNER_SWAP_SUCCESS_def

lemmas EVENT_defs =
  EVENT_OWNER_PAIRING_STARTED_def EVENT_OWNER_PAIRING_COMPLETED_def
  EVENT_OLD_OWNER_DISCONNECTED_def EVENT_BOND_DELETION_def
  EVENT_BOND_DELETION_FAILED_def EVENT_NEW_OWNER_DISCONNECTED_def

text \<open>The nine states and the six events, as the lists the claims quantify over.\<close>

definition STATES :: "int list" where
  "STATES =
     [STATE_WAITING_FOR_OWNER_PAIRING, STATE_OWNER_PAIRING_STARTED,
      STATE_OWNER_PAIRING_COMPLETED, STATE_OWNER_SWAP_INITIATED,
      STATE_OLD_OWNER_DISCONNECTED, STATE_OWNER_SWAP_COMPLETED,
      STATE_BOND_DELETED_STILL_CONNECTED,
      STATE_NEW_OWNER_DISCONNECTED_BOND_STILL_EXIST, STATE_OWNER_SWAP_SUCCESS]"

definition EVENTS :: "int list" where
  "EVENTS =
     [EVENT_OWNER_PAIRING_STARTED, EVENT_OWNER_PAIRING_COMPLETED,
      EVENT_OLD_OWNER_DISCONNECTED, EVENT_BOND_DELETION,
      EVENT_BOND_DELETION_FAILED, EVENT_NEW_OWNER_DISCONNECTED]"

subsection \<open>Python's \<open>str\<close> of an integer\<close>

text \<open>
  Only the fallback branch of the state machine formats a number
  (\<^verbatim>\<open>f"Unknown state: {current_state}"\<close>): decimal digits, with a minus sign
  for a negative one.
\<close>

fun str_nat :: "nat \<Rightarrow> string" where
  "str_nat n =
     (if n < 10 then [char_of (48 + n)]
      else str_nat (n div 10) @ [char_of (48 + n mod 10)])"

declare str_nat.simps [simp del]

definition str_int :: "int \<Rightarrow> string" where
  "str_int i = (if i < 0 then CHR ''-'' # str_nat (nat (- i)) else str_nat (nat i))"

subsection \<open>The transition function\<close>

text \<open>
  \<^verbatim>\<open>owner_swap_state_machine(events, current_state)\<close> returns the pair
  \<open>(new_state, status_message)\<close>. The branches are in the source's order.
\<close>

definition owner_swap_state_machine :: "int \<Rightarrow> int \<Rightarrow> int \<times> string" where
  "owner_swap_state_machine events current_state =
     (if current_state = STATE_WAITING_FOR_OWNER_PAIRING then
        (if events = EVENT_OWNER_PAIRING_STARTED then (STATE_OWNER_PAIRING_STARTED, ''OK'')
         else (current_state, ''Owner Pairing was not started''))
      else if current_state = STATE_OWNER_PAIRING_STARTED then
        (if events = EVENT_OWNER_PAIRING_COMPLETED then (STATE_OWNER_PAIRING_COMPLETED, ''OK'')
         else (current_state, ''Owner Pairing was not completed''))
      else if current_state = STATE_OWNER_PAIRING_COMPLETED then
        (if events = EVENT_OWNER_PAIRING_STARTED then (STATE_OWNER_SWAP_INITIATED, ''OK'')
         else (current_state, ''Owner Swap was not initiated''))
      else if current_state = STATE_OWNER_SWAP_INITIATED then
        (if events = EVENT_OLD_OWNER_DISCONNECTED then (STATE_OLD_OWNER_DISCONNECTED, ''OK'')
         else (current_state, ''Old Owner did not disconnect''))
      else if current_state = STATE_OLD_OWNER_DISCONNECTED then
        (if events = EVENT_OWNER_PAIRING_COMPLETED then (STATE_OWNER_SWAP_COMPLETED, ''OK'')
         else (current_state, ''Owner Swap was not completed''))
      else if current_state = STATE_OWNER_SWAP_COMPLETED then
        (if events = EVENT_BOND_DELETION then (STATE_BOND_DELETED_STILL_CONNECTED, ''OK'')
         else if events = EVENT_BOND_DELETION_FAILED then
           (current_state, ''Bond Deletion failed'')
         else if events = EVENT_NEW_OWNER_DISCONNECTED then
           (STATE_NEW_OWNER_DISCONNECTED_BOND_STILL_EXIST, ''OK'')
         else (current_state, ''Bond Deletion did not occur before disconnecting''))
      else if current_state = STATE_BOND_DELETED_STILL_CONNECTED then
        (if events = EVENT_NEW_OWNER_DISCONNECTED then (STATE_OWNER_SWAP_SUCCESS, ''OK'')
         else if events = EVENT_OLD_OWNER_DISCONNECTED then (current_state, ''OK'')
         else (current_state, ''New Owner did not disconnect''))
      else if current_state = STATE_NEW_OWNER_DISCONNECTED_BOND_STILL_EXIST then
        (if events = EVENT_BOND_DELETION then (STATE_OWNER_SWAP_SUCCESS, ''OK'')
         else if events = EVENT_BOND_DELETION_FAILED then
           (current_state, ''Bond Deletion failed'')
         else if events = EVENT_OLD_OWNER_DISCONNECTED then (current_state, ''OK'')
         else (current_state, ''Bond Deletion did no occur after disconnecting''))
      else if current_state = STATE_OWNER_SWAP_SUCCESS then (current_state, ''OK'')
      else (current_state, ''Unknown state: '' @ str_int current_state))"

subsection \<open>Matching one line\<close>

text \<open>
  Every pattern handed to \<^verbatim>\<open>re.search\<close> is a literal: none holds a regular
  expression operator except the escaped bar \<^verbatim>\<open>\|\<close>, which stands for the
  character \<open>|\<close>. So \<^verbatim>\<open>re.search(pat, line)\<close> succeeds exactly when the
  literal occurs somewhere in the line, and the patterns below are written with the
  bar unescaped.
\<close>

fun re_search :: "string \<Rightarrow> string \<Rightarrow> bool" where
  "re_search pat [] = (pat = [])"
| "re_search pat (c # cs) = (prefix pat (c # cs) \<or> re_search pat cs)"

text \<open>
  The \<^verbatim>\<open>if\<close>/\<^verbatim>\<open>elif\<close> chain of the loop body: the flag \<open>match_found\<close>
  and the pair \<open>(owner_swap_state, result)\<close> after the line.
\<close>

definition match_line :: "string \<Rightarrow> int \<times> string \<Rightarrow> bool \<times> int \<times> string" where
  "match_line line sr =
     (if re_search ''Owner Pairing Started'' line then
        (True, owner_swap_state_machine EVENT_OWNER_PAIRING_STARTED (fst sr))
      else if re_search ''Owner Pairing Complete!'' line then
        (True, owner_swap_state_machine EVENT_OWNER_PAIRING_COMPLETED (fst sr))
      else if re_search ''Link Terminated Received, link 0x00'' line then
        (True, owner_swap_state_machine EVENT_OLD_OWNER_DISCONNECTED (fst sr))
      else if re_search
          ''BLE Cloud Event: Bond Deletion - Deletion Type: 02 | Status: 00'' line then
        (True, owner_swap_state_machine EVENT_BOND_DELETION (fst sr))
      else if re_search
          ''BLE Cloud Event: Bond Deletion - Deletion Type: 02 | Status:'' line then
        (True, owner_swap_state_machine EVENT_BOND_DELETION_FAILED (fst sr))
      else if re_search ''Link Terminated Received, link 0x01'' line then
        (True, owner_swap_state_machine EVENT_NEW_OWNER_DISCONNECTED (fst sr))
      else (False, sr))"

subsection \<open>Scanning a file\<close>

text \<open>
  What reading a file gives: the lines that are read, and how the reading ends, at
  the end of the file (\<open>None\<close>) or with an exception whose text is \<open>e\<close>
  (\<open>Some e\<close>). A file that cannot be opened has no line and ends with the
  exception. Decoding never raises (\<^verbatim>\<open>errors='replace'\<close>).

  The loop stops at the first matched line whose result is not \<open>OK\<close>; a line
  after it is never read, so an exception waiting there is never raised.
  \<open>Inl e\<close> is the exception reaching the handler, \<open>Inr\<close> the state and result
  the loop ends with.
\<close>

type_synonym file_stream = "string list \<times> string option"

fun scan_lines :: "string list \<Rightarrow> string option \<Rightarrow> int \<times> string \<Rightarrow> string + int \<times> string" where
  "scan_lines [] None sr = Inr sr"
| "scan_lines [] (Some e) sr = Inl e"
| "scan_lines (line # rest) ending sr =
     (case match_line line sr of
        (match_found, sr') \<Rightarrow>
          if match_found then
            (if snd sr' \<noteq> ''OK'' then Inr sr' else scan_lines rest ending sr')
          else scan_lines rest ending sr')"

subsection \<open>The report\<close>

text \<open>
  A row of the CSV report is the list handed to \<^verbatim>\<open>writer.writerow\<close>: strings,
  and the final state as the integer it is. The report is the list of its rows,
  and appending a row is the only effect of analysing a file.
\<close>

datatype csv_field = Str string | Num int

type_synonym csv_row = "csv_field list"

definition basename :: "string \<Rightarrow> string" where
  "basename p = rev (takeWhile (\<lambda>c. c \<noteq> CHR ''/'') (rev p))"

definition analyze_log_file ::
    "(string \<Rightarrow> file_stream) \<Rightarrow> string \<Rightarrow> csv_row list \<Rightarrow> csv_row list" where
  "analyze_log_file fs file_path report =
     (case scan_lines (fst (fs file_path)) (snd (fs file_path))
             (STATE_WAITING_FOR_OWNER_PAIRING, ''OK'') of
        Inr (owner_swap_state, result) \<Rightarrow>
          if owner_swap_state \<noteq> STATE_OWNER_SWAP_SUCCESS \<or> result \<noteq> ''OK'' then
            report @ [[Str (basename file_path), Str ''FAILED'', Num owner_swap_state, Str result]]
          else
            report @ [[Str (basename file_path), Str ''PASSED'', Num owner_swap_state, Str result]]
      | Inl e \<Rightarrow>
          report @ [[Str (basename file_path), Str ''FAILED'', Str ''EXCEPTION'', Str e]])"



subsection \<open>The specification's Event Extractor and its event streams\<close>

text \<open>
  The specification describes the \<^verbatim>\<open>if\<close>/\<^verbatim>\<open>elif\<close> chain as a component
  of its own, the Event Extractor: an ordered list of patterns checked in priority
  order, the first matching pattern giving the event of the line and a line that
  matches none giving no event. These definitions follow the specification's
  words; \<open>match_line\<close> above is the code they are compared with.
\<close>

definition EXTRACTOR_PATTERNS :: "(string \<times> int) list" where
  "EXTRACTOR_PATTERNS =
     [(''Owner Pairing Started'', EVENT_OWNER_PAIRING_STARTED),
      (''Owner Pairing Complete!'', EVENT_OWNER_PAIRING_COMPLETED),
      (''Link Terminated Received, link 0x00'', EVENT_OLD_OWNER_DISCONNECTED),
      (''BLE Cloud Event: Bond Deletion - Deletion Type: 02 | Status: 00'',
         EVENT_BOND_DELETION),
      (''BLE Cloud Event: Bond Deletion - Deletion Type: 02 | Status:'',
         EVENT_BOND_DELETION_FAILED),
      (''Link Terminated Received, link 0x01'', EVENT_NEW_OWNER_DISCONNECTED)]"

definition extract_event :: "string \<Rightarrow> int option" where
  "extract_event line =
     map_option snd (find (\<lambda>(pat, ev). re_search pat line) EXTRACTOR_PATTERNS)"

text \<open>The events of a line stream, in order, and the state machine run on them
  with the loop's early stop.\<close>

fun events_of :: "string list \<Rightarrow> int list" where
  "events_of [] = []"
| "events_of (line # rest) =
     (case extract_event line of
        None \<Rightarrow> events_of rest
      | Some ev \<Rightarrow> ev # events_of rest)"

fun run_events :: "int list \<Rightarrow> int \<times> string \<Rightarrow> int \<times> string" where
  "run_events [] sr = sr"
| "run_events (ev # rest) sr =
     (if snd (owner_swap_state_machine ev (fst sr)) \<noteq> ''OK''
      then owner_swap_state_machine ev (fst sr)
      else run_events rest (owner_swap_state_machine ev (fst sr)))"

text \<open>
  The transitions the specification's table lists with diagnostic \<open>OK\<close>: the
  legal moves of the protocol, the two no-ops on an old-owner disconnect, and
  every event in the terminal state.
\<close>

definition LEGAL_TRANSITIONS :: "(int \<times> int) list" where
  "LEGAL_TRANSITIONS =
     [(STATE_WAITING_FOR_OWNER_PAIRING, EVENT_OWNER_PAIRING_STARTED),
      (STATE_OWNER_PAIRING_STARTED, EVENT_OWNER_PAIRING_COMPLETED),
      (STATE_OWNER_PAIRING_COMPLETED, EVENT_OWNER_PAIRING_STARTED),
      (STATE_OWNER_SWAP_INITIATED, EVENT_OLD_OWNER_DISCONNECTED),
      (STATE_OLD_OWNER_DISCONNECTED, EVENT_OWNER_PAIRING_COMPLETED),
      (STATE_OWNER_SWAP_COMPLETED, EVENT_BOND_DELETION),
      (STATE_OWNER_SWAP_COMPLETED, EVENT_NEW_OWNER_DISCONNECTED),
      (STATE_BOND_DELETED_STILL_CONNECTED, EVENT_NEW_OWNER_DISCONNECTED),
      (STATE_BOND_DELETED_STILL_CONNECTED, EVENT_OLD_OWNER_DISCONNECTED),
      (STATE_NEW_OWNER_DISCONNECTED_BOND_STILL_EXIST, EVENT_BOND_DELETION),
      (STATE_NEW_OWNER_DISCONNECTED_BOND_STILL_EXIST, EVENT_OLD_OWNER_DISCONNECTED)]
     @ map (Pair STATE_OWNER_SWAP_SUCCESS) EVENTS"


text \<open>A log of a full owner swap (the specification's scenario A), with a line
  that matches nothing in front.\<close>

definition scenario_a_lines :: "string list" where
  "scenario_a_lines =
     [''boot ok'',
      ''Owner Pairing Started'',
      ''Owner Pairing Complete!'',
      ''Owner Pairing Started'',
      ''Link Terminated Received, link 0x00'',
      ''Owner Pairing Complete!'',
      ''BLE Cloud Event: Bond Deletion - Deletion Type: 02 | Status: 00'',
      ''Link Terminated Received, link 0x01'']"

section \<open>Properties\<close>

subsection \<open>Auxiliary facts\<close>

lemma re_search_sublist: "re_search pat s = sublist pat s"
  by (induction s) (auto simp: sublist_Cons_right)

lemma match_line_extract:
  "match_line line sr =
     (case extract_event line of
        None \<Rightarrow> (False, sr)
      | Some ev \<Rightarrow> (True, owner_swap_state_machine ev (fst sr)))"
  by (simp add: match_line_def extract_event_def EXTRACTOR_PATTERNS_def)

lemma scan_lines_step:
  "scan_lines (line # rest) ending sr =
     (case extract_event line of
        None \<Rightarrow> scan_lines rest ending sr
      | Some ev \<Rightarrow>
          if snd (owner_swap_state_machine ev (fst sr)) \<noteq> ''OK''
          then Inr (owner_swap_state_machine ev (fst sr))
          else scan_lines rest ending (owner_swap_state_machine ev (fst sr)))"
  by (simp add: match_line_extract split: option.splits)

lemma scan_lines_eof: "scan_lines ls None sr = Inr (run_events (events_of ls) sr)"
  by (induction ls arbitrary: sr)
     (simp_all add: scan_lines_step del: scan_lines.simps(3) split: option.splits)

lemma scan_lines_append:
  "scan_lines pre None sr = Inr (s, ''OK'') \<Longrightarrow>
   scan_lines (pre @ rest) ending sr = scan_lines rest ending (s, ''OK'')"
proof (induction pre arbitrary: sr)
  case Nil
  then show ?case by simp
next
  case (Cons l pre)
  then show ?case
    by (cases "extract_event l")
       (auto simp: scan_lines_step simp del: scan_lines.simps(3) split: if_splits)
qed

lemma scan_lines_no_events:
  "events_of pre = [] \<Longrightarrow> scan_lines (pre @ rest) ending sr = scan_lines rest ending sr"
  by (induction pre)
     (auto simp: scan_lines_step simp del: scan_lines.simps(3) split: option.splits)


text \<open>Every transition that ends in the terminal state says \<open>OK\<close>, whatever the
  integers handed in.\<close>

lemma osm_enters_success:
  "fst (owner_swap_state_machine e s) = STATE_OWNER_SWAP_SUCCESS \<longrightarrow>
   snd (owner_swap_state_machine e s) = ''OK''"
  unfolding owner_swap_state_machine_def STATE_defs by simp

lemma scan_lines_success:
  "(fst sr = STATE_OWNER_SWAP_SUCCESS \<longrightarrow> snd sr = ''OK'') \<Longrightarrow>
   scan_lines ls ending sr = Inr (STATE_OWNER_SWAP_SUCCESS, r) \<Longrightarrow> r = ''OK''"
proof (induction ls arbitrary: sr)
  case Nil
  then show ?case by (cases ending) auto
next
  case (Cons l ls)
  show ?case
  proof (cases "extract_event l")
    case None
    with Cons show ?thesis by (simp add: scan_lines_step del: scan_lines.simps(3))
  next
    case (Some ev)
    let ?sr = "owner_swap_state_machine ev (fst sr)"
    have inv: "fst ?sr = STATE_OWNER_SWAP_SUCCESS \<longrightarrow> snd ?sr = ''OK''"
      by (rule osm_enters_success)
    show ?thesis
    proof (cases "snd ?sr = ''OK''")
      case True
      with Cons.prems(2) Some
      have "scan_lines ls ending ?sr = Inr (STATE_OWNER_SWAP_SUCCESS, r)"
        by (simp add: scan_lines_step del: scan_lines.simps(3))
      with Cons.IH [OF inv] show ?thesis .
    next
      case False
      with Cons.prems(2) Some have "?sr = (STATE_OWNER_SWAP_SUCCESS, r)"
        by (simp add: scan_lines_step del: scan_lines.simps(3))
      with inv show ?thesis by simp
    qed
  qed
qed




lemma scenario_a_events:
  "events_of scenario_a_lines =
      [EVENT_OWNER_PAIRING_STARTED, EVENT_OWNER_PAIRING_COMPLETED,
       EVENT_OWNER_PAIRING_STARTED, EVENT_OLD_OWNER_DISCONNECTED,
       EVENT_OWNER_PAIRING_COMPLETED, EVENT_BOND_DELETION, EVENT_NEW_OWNER_DISCONNECTED]"
  by (simp add: scenario_a_lines_def extract_event_def EXTRACTOR_PATTERNS_def)

lemma scenario_a_scan:
  "scan_lines scenario_a_lines None (STATE_WAITING_FOR_OWNER_PAIRING, ''OK'')
     = Inr (STATE_OWNER_SWAP_SUCCESS, ''OK'')"
  by (simp add: scan_lines_eof scenario_a_events owner_swap_state_machine_def
      STATE_defs EVENT_defs)

subsection \<open>The verdict rule\<close>

text \<open>
  Claim C1. For every finite stream of log lines read to the end of the file, the
  scan ends in some state \<open>st\<close> with some diagnostic \<open>res\<close>, and the row
  written for the file carries both, with status \<open>PASSED\<close> exactly when
  \<open>st\<close> is \<open>STATE_OWNER_SWAP_SUCCESS\<close> and \<open>res\<close> is \<open>OK\<close>, and
  \<open>FAILED\<close> in every other case.
\<close>

theorem verdict_rule:
  assumes "fs p = (ls, None)"
  shows "\<exists>st res.
           scan_lines ls None (STATE_WAITING_FOR_OWNER_PAIRING, ''OK'') = Inr (st, res) \<and>
           analyze_log_file fs p report =
             report @ [[Str (basename p),
                        Str (if st = STATE_OWNER_SWAP_SUCCESS \<and> res = ''OK''
                             then ''PASSED'' else ''FAILED''),
                        Num st, Str res]]"
proof -
  obtain st res where
    run: "run_events (events_of ls) (STATE_WAITING_FOR_OWNER_PAIRING, ''OK'') = (st, res)"
    by (cases "run_events (events_of ls) (STATE_WAITING_FOR_OWNER_PAIRING, ''OK'')")
  then have scan:
    "scan_lines ls None (STATE_WAITING_FOR_OWNER_PAIRING, ''OK'') = Inr (st, res)"
    by (simp add: scan_lines_eof)
  with assms have "analyze_log_file fs p report =
      report @ [[Str (basename p),
                 Str (if st = STATE_OWNER_SWAP_SUCCESS \<and> res = ''OK''
                      then ''PASSED'' else ''FAILED''),
                 Num st, Str res]]"
    by (simp add: analyze_log_file_def)
  with scan show ?thesis by blast
qed

text \<open>A log that stalls after the first pairing start (the specification's
  scenario B): state 1, diagnostic \<open>OK\<close>, status \<open>FAILED\<close>.\<close>

theorem verdict_rule_witness:
  "(\<lambda>_. ([''12:00 Owner Pairing Started''], None)) ''/logs/run1.log''
      = ([''12:00 Owner Pairing Started''], None) \<and>
   analyze_log_file (\<lambda>_. ([''12:00 Owner Pairing Started''], None)) ''/logs/run1.log'' []
      = [[Str ''run1.log'', Str ''FAILED'', Num 1, Str ''OK'']]"
  using verdict_rule [of "\<lambda>_. ([''12:00 Owner Pairing Started''], None)"
      "''/logs/run1.log''" "[''12:00 Owner Pairing Started'']" "[]"]
  by (simp add: analyze_log_file_def match_line_def owner_swap_state_machine_def
      STATE_defs EVENT_defs basename_def)

subsection \<open>Early stop\<close>

text \<open>
  Claim C2. Let the lines before line \<open>l\<close> raise no diagnostic other than
  \<open>OK\<close> (scanned alone they end in state \<open>s\<close> with \<open>OK\<close>), and let
  \<open>l\<close> produce state \<open>s'\<close> with a diagnostic \<open>d\<close> that is not \<open>OK\<close>.
  Then the scan of the whole file ends with \<open>(s', d)\<close>, and the row written is
  the \<open>FAILED\<close> row of \<open>(s', d)\<close>, whatever the lines \<open>post\<close> after
  \<open>l\<close> are and however the reading would have ended.
\<close>

theorem early_stop:
  assumes "scan_lines pre None (STATE_WAITING_FOR_OWNER_PAIRING, ''OK'') = Inr (s, ''OK'')"
    and "match_line l (s, ''OK'') = (m, s', d)"
    and "d \<noteq> ''OK''"
    and "fs p = (pre @ l # post, ending)"
  shows "scan_lines (pre @ l # post) ending (STATE_WAITING_FOR_OWNER_PAIRING, ''OK'')
           = Inr (s', d) \<and>
         analyze_log_file fs p report =
           report @ [[Str (basename p), Str ''FAILED'', Num s', Str d]]"
proof -
  from assms(2,3) have m: "m"
    by (auto simp: match_line_def split: if_splits)
  have "scan_lines (pre @ l # post) ending (STATE_WAITING_FOR_OWNER_PAIRING, ''OK'')
          = scan_lines (l # post) ending (s, ''OK'')"
    using assms(1) by (rule scan_lines_append)
  also have "\<dots> = Inr (s', d)"
    using assms(2,3) m by simp
  finally have scan:
    "scan_lines (pre @ l # post) ending (STATE_WAITING_FOR_OWNER_PAIRING, ''OK'')
       = Inr (s', d)" .
  with assms(3,4) show ?thesis by (simp add: analyze_log_file_def)
qed

text \<open>One start line, then a second start line where the completion was due; the
  line after it would have completed the pairing, and the reading would have failed
  after that. Neither is reached.\<close>

theorem early_stop_witness:
  "scan_lines [''Owner Pairing Started''] None (STATE_WAITING_FOR_OWNER_PAIRING, ''OK'')
      = Inr (1, ''OK'') \<and>
   match_line ''Owner Pairing Started again'' (1, ''OK'')
      = (True, 1, ''Owner Pairing was not completed'') \<and>
   ''Owner Pairing was not completed'' \<noteq> ''OK'' \<and>
   scan_lines
      ([''Owner Pairing Started''] @ ''Owner Pairing Started again'' #
         [''Owner Pairing Complete!''])
      (Some ''I/O error'') (STATE_WAITING_FOR_OWNER_PAIRING, ''OK'')
      = Inr (1, ''Owner Pairing was not completed'') \<and>
   analyze_log_file
      (\<lambda>_. ([''Owner Pairing Started''] @ ''Owner Pairing Started again'' #
               [''Owner Pairing Complete!''], Some ''I/O error'')) ''b.log'' []
      = [[Str ''b.log'', Str ''FAILED'', Num 1, Str ''Owner Pairing was not completed'']]"
  using early_stop [where pre = "[''Owner Pairing Started'']" and s = 1
      and l = "''Owner Pairing Started again''" and m = True and s' = 1
      and d = "''Owner Pairing was not completed''"
      and fs = "\<lambda>_. ([''Owner Pairing Started''] @ ''Owner Pairing Started again'' #
                      [''Owner Pairing Complete!''], Some ''I/O error'')"
      and p = "''b.log''" and post = "[''Owner Pairing Complete!'']"
      and ending = "Some ''I/O error''" and report = "[]"]
  by (simp add: match_line_def owner_swap_state_machine_def STATE_defs EVENT_defs
      analyze_log_file_def basename_def)

subsection \<open>The transition table\<close>

text \<open>
  Claim C3. In state \<open>STATE_NEW_OWNER_DISCONNECTED_BOND_STILL_EXIST\<close> a bond
  deletion leads to \<open>STATE_OWNER_SWAP_SUCCESS\<close> with \<open>OK\<close>, a failed bond
  deletion stays with \<open>Bond Deletion failed\<close>, and an old-owner disconnect
  stays with \<open>OK\<close>. Any other event stays as well, but the diagnostic the code
  returns there reads \<open>Bond Deletion did no occur after disconnecting\<close>, which
  is not the claim's \<open>Bond Deletion did not occur after disconnecting\<close>;
  evaluated at the event \<open>EVENT_OWNER_PAIRING_STARTED\<close>.
\<close>

theorem bond_still_exists_other_event:
  "owner_swap_state_machine EVENT_BOND_DELETION
       STATE_NEW_OWNER_DISCONNECTED_BOND_STILL_EXIST
     = (STATE_OWNER_SWAP_SUCCESS, ''OK'') \<and>
   owner_swap_state_machine EVENT_BOND_DELETION_FAILED
       STATE_NEW_OWNER_DISCONNECTED_BOND_STILL_EXIST
     = (STATE_NEW_OWNER_DISCONNECTED_BOND_STILL_EXIST, ''Bond Deletion failed'') \<and>
   owner_swap_state_machine EVENT_OLD_OWNER_DISCONNECTED
       STATE_NEW_OWNER_DISCONNECTED_BOND_STILL_EXIST
     = (STATE_NEW_OWNER_DISCONNECTED_BOND_STILL_EXIST, ''OK'') \<and>
   owner_swap_state_machine EVENT_OWNER_PAIRING_STARTED
       STATE_NEW_OWNER_DISCONNECTED_BOND_STILL_EXIST
     = (STATE_NEW_OWNER_DISCONNECTED_BOND_STILL_EXIST,
        ''Bond Deletion did no occur after disconnecting'') \<and>
   snd (owner_swap_state_machine EVENT_OWNER_PAIRING_STARTED
       STATE_NEW_OWNER_DISCONNECTED_BOND_STILL_EXIST)
     \<noteq> ''Bond Deletion did not occur after disconnecting''"
  by (simp add: owner_swap_state_machine_def STATE_defs EVENT_defs)

text \<open>
  Claim C4. For each of the nine states and each of the six events the transition
  function returns a pair whose state is again one of the nine (the fallback
  branch for an unknown state is not taken); the diagnostic is \<open>OK\<close> exactly
  for the transitions the table lists as legal, and every other combination
  returns the input state unchanged, with a diagnostic that is not \<open>OK\<close>.
\<close>

theorem transition_total:
  assumes "s \<in> set STATES" and "e \<in> set EVENTS"
  shows "\<exists>s' d. owner_swap_state_machine e s = (s', d) \<and> s' \<in> set STATES \<and>
           (d = ''OK'') = ((s, e) \<in> set LEGAL_TRANSITIONS) \<and>
           ((s, e) \<notin> set LEGAL_TRANSITIONS \<longrightarrow> s' = s)"
  using assms
  by (auto simp: STATES_def EVENTS_def LEGAL_TRANSITIONS_def owner_swap_state_machine_def
      STATE_defs EVENT_defs)

theorem transition_total_witness:
  "STATE_OWNER_SWAP_INITIATED \<in> set STATES \<and> EVENT_BOND_DELETION \<in> set EVENTS \<and>
   (STATE_OWNER_SWAP_INITIATED, EVENT_BOND_DELETION) \<notin> set LEGAL_TRANSITIONS \<and>
   owner_swap_state_machine EVENT_BOND_DELETION STATE_OWNER_SWAP_INITIATED
     = (STATE_OWNER_SWAP_INITIATED, ''Old Owner did not disconnect'')"
  using transition_total [of STATE_OWNER_SWAP_INITIATED EVENT_BOND_DELETION]
  by (simp add: STATES_def EVENTS_def LEGAL_TRANSITIONS_def owner_swap_state_machine_def
      STATE_defs EVENT_defs)

text \<open>
  Claim C5. The terminal state is absorbing: in \<open>STATE_OWNER_SWAP_SUCCESS\<close>
  the transition function returns \<open>STATE_OWNER_SWAP_SUCCESS\<close> with
  diagnostic \<open>OK\<close> for every event, the six of \<open>EVENTS\<close> among them.
\<close>

theorem terminal_state_absorbing:
  "owner_swap_state_machine e STATE_OWNER_SWAP_SUCCESS = (STATE_OWNER_SWAP_SUCCESS, ''OK'')"
  by (simp add: owner_swap_state_machine_def STATE_defs)

subsection \<open>The Event Extractor\<close>

text \<open>
  Claim C7. The loop body does what the specification's Event Extractor says: the
  first pattern of \<open>EXTRACTOR_PATTERNS\<close>, in that order, that occurs in the
  line gives the one event handed to the transition function. A line holding the
  bond-deletion pattern with status \<open>00\<close> never yields
  \<open>EVENT_BOND_DELETION_FAILED\<close>, and yields \<open>EVENT_BOND_DELETION\<close> unless one
  of the three patterns of higher priority occurs in it too. A line in which no
  pattern occurs yields no event: the state and the diagnostic stay as they are and
  the scan goes on with the next line.
\<close>

theorem first_match_wins:
  "match_line line sr =
     (case extract_event line of
        None \<Rightarrow> (False, sr)
      | Some ev \<Rightarrow> (True, owner_swap_state_machine ev (fst sr))) \<and>
   (re_search ''BLE Cloud Event: Bond Deletion - Deletion Type: 02 | Status: 00'' line \<longrightarrow>
      extract_event line \<noteq> Some EVENT_BOND_DELETION_FAILED \<and>
      (\<not> re_search ''Owner Pairing Started'' line \<and>
       \<not> re_search ''Owner Pairing Complete!'' line \<and>
       \<not> re_search ''Link Terminated Received, link 0x00'' line \<longrightarrow>
         extract_event line = Some EVENT_BOND_DELETION)) \<and>
   (extract_event line = None \<longrightarrow>
      match_line line sr = (False, sr) \<and>
      scan_lines (line # rest) ending sr = scan_lines rest ending sr)"
proof (intro conjI impI)
  show "match_line line sr =
     (case extract_event line of
        None \<Rightarrow> (False, sr)
      | Some ev \<Rightarrow> (True, owner_swap_state_machine ev (fst sr)))"
    by (rule match_line_extract)
next
  assume "re_search ''BLE Cloud Event: Bond Deletion - Deletion Type: 02 | Status: 00'' line"
  then show "extract_event line \<noteq> Some EVENT_BOND_DELETION_FAILED"
    by (simp add: extract_event_def EXTRACTOR_PATTERNS_def EVENT_defs)
next
  assume "re_search ''BLE Cloud Event: Bond Deletion - Deletion Type: 02 | Status: 00'' line"
    and "\<not> re_search ''Owner Pairing Started'' line \<and>
       \<not> re_search ''Owner Pairing Complete!'' line \<and>
       \<not> re_search ''Link Terminated Received, link 0x00'' line"
  then show "extract_event line = Some EVENT_BOND_DELETION"
    by (simp add: extract_event_def EXTRACTOR_PATTERNS_def)
next
  assume "extract_event line = None"
  then show "match_line line sr = (False, sr)"
    by (simp add: match_line_extract)
next
  assume "extract_event line = None"
  then show "scan_lines (line # rest) ending sr = scan_lines rest ending sr"
    by (simp add: scan_lines_step del: scan_lines.simps(3))
qed

text \<open>A bond-deletion line with status \<open>00\<close>, and a line that matches no
  pattern.\<close>

theorem first_match_wins_witness:
  "re_search ''BLE Cloud Event: Bond Deletion - Deletion Type: 02 | Status: 00''
      ''[0012] BLE Cloud Event: Bond Deletion - Deletion Type: 02 | Status: 00'' \<and>
   extract_event ''[0012] BLE Cloud Event: Bond Deletion - Deletion Type: 02 | Status: 00''
      = Some EVENT_BOND_DELETION \<and>
   match_line ''[0012] BLE Cloud Event: Bond Deletion - Deletion Type: 02 | Status: 00''
      (STATE_OWNER_SWAP_COMPLETED, ''OK'') = (True, STATE_BOND_DELETED_STILL_CONNECTED, ''OK'') \<and>
   extract_event ''[0013] battery level 80'' = None \<and>
   match_line ''[0013] battery level 80'' (STATE_OWNER_SWAP_COMPLETED, ''OK'')
      = (False, STATE_OWNER_SWAP_COMPLETED, ''OK'') \<and>
   scan_lines [''[0013] battery level 80''] None (STATE_OWNER_SWAP_COMPLETED, ''OK'')
      = Inr (STATE_OWNER_SWAP_COMPLETED, ''OK'')"
  using first_match_wins
      [of "''[0012] BLE Cloud Event: Bond Deletion - Deletion Type: 02 | Status: 00''"
          "(STATE_OWNER_SWAP_COMPLETED, ''OK'')" "[]" None]
    first_match_wins
      [of "''[0013] battery level 80''" "(STATE_OWNER_SWAP_COMPLETED, ''OK'')" "[]" None]
  by (simp add: extract_event_def EXTRACTOR_PATTERNS_def match_line_def
      owner_swap_state_machine_def STATE_defs EVENT_defs)

subsection \<open>Scenarios\<close>

text \<open>
  Claim C6. Every line stream whose events are, in order, pairing started,
  pairing completed, pairing started, old owner disconnected, pairing completed,
  bond deletion, new owner disconnected, and that is read to the end of the file,
  ends in \<open>STATE_OWNER_SWAP_SUCCESS\<close> with diagnostic \<open>OK\<close>, and its row
  says \<open>PASSED\<close>.
\<close>

theorem scenario_full_success:
  assumes "events_of ls =
      [EVENT_OWNER_PAIRING_STARTED, EVENT_OWNER_PAIRING_COMPLETED,
       EVENT_OWNER_PAIRING_STARTED, EVENT_OLD_OWNER_DISCONNECTED,
       EVENT_OWNER_PAIRING_COMPLETED, EVENT_BOND_DELETION, EVENT_NEW_OWNER_DISCONNECTED]"
    and "fs p = (ls, None)"
  shows "scan_lines ls None (STATE_WAITING_FOR_OWNER_PAIRING, ''OK'')
           = Inr (STATE_OWNER_SWAP_SUCCESS, ''OK'') \<and>
         analyze_log_file fs p report =
           report @ [[Str (basename p), Str ''PASSED'', Num STATE_OWNER_SWAP_SUCCESS, Str ''OK'']]"
proof -
  have "run_events (events_of ls) (STATE_WAITING_FOR_OWNER_PAIRING, ''OK'')
          = (STATE_OWNER_SWAP_SUCCESS, ''OK'')"
    unfolding assms(1)
    by (simp add: owner_swap_state_machine_def STATE_defs EVENT_defs)
  then have scan: "scan_lines ls None (STATE_WAITING_FOR_OWNER_PAIRING, ''OK'')
           = Inr (STATE_OWNER_SWAP_SUCCESS, ''OK'')"
    by (simp add: scan_lines_eof)
  with assms(2) show ?thesis by (simp add: analyze_log_file_def)
qed

theorem scenario_full_success_witness:
  "events_of scenario_a_lines =
      [EVENT_OWNER_PAIRING_STARTED, EVENT_OWNER_PAIRING_COMPLETED,
       EVENT_OWNER_PAIRING_STARTED, EVENT_OLD_OWNER_DISCONNECTED,
       EVENT_OWNER_PAIRING_COMPLETED, EVENT_BOND_DELETION, EVENT_NEW_OWNER_DISCONNECTED] \<and>
   scan_lines scenario_a_lines None (STATE_WAITING_FOR_OWNER_PAIRING, ''OK'')
      = Inr (STATE_OWNER_SWAP_SUCCESS, ''OK'') \<and>
   analyze_log_file (\<lambda>_. (scenario_a_lines, None)) ''a.log'' []
      = [[Str ''a.log'', Str ''PASSED'', Num 8, Str ''OK'']]"
  using scenario_full_success [OF scenario_a_events,
      where fs = "\<lambda>_. (scenario_a_lines, None)" and p = "''a.log''" and report = "[]"]
    scenario_a_events
  by (simp add: basename_def STATE_defs)

text \<open>
  Claim C8. When the first line that yields an event yields
  \<open>EVENT_OWNER_PAIRING_COMPLETED\<close> (the lines \<open>pre\<close> before it yield none),
  the scan stops at that line, still in \<open>STATE_WAITING_FOR_OWNER_PAIRING\<close>,
  with diagnostic \<open>Owner Pairing was not started\<close>, and the row says
  \<open>FAILED\<close>, whatever follows the line.
\<close>

theorem scenario_out_of_order:
  assumes "events_of pre = []"
    and "extract_event l = Some EVENT_OWNER_PAIRING_COMPLETED"
    and "fs p = (pre @ l # post, ending)"
  shows "scan_lines (pre @ l # post) ending (STATE_WAITING_FOR_OWNER_PAIRING, ''OK'')
           = Inr (STATE_WAITING_FOR_OWNER_PAIRING, ''Owner Pairing was not started'') \<and>
         analyze_log_file fs p report =
           report @ [[Str (basename p), Str ''FAILED'', Num STATE_WAITING_FOR_OWNER_PAIRING,
                      Str ''Owner Pairing was not started'']]"
proof -
  have "scan_lines (pre @ l # post) ending (STATE_WAITING_FOR_OWNER_PAIRING, ''OK'')
          = scan_lines (l # post) ending (STATE_WAITING_FOR_OWNER_PAIRING, ''OK'')"
    using assms(1) by (rule scan_lines_no_events)
  also have "\<dots> = Inr (STATE_WAITING_FOR_OWNER_PAIRING, ''Owner Pairing was not started'')"
    using assms(2)
    by (simp add: scan_lines_step owner_swap_state_machine_def STATE_defs EVENT_defs
        del: scan_lines.simps(3))
  finally have scan:
    "scan_lines (pre @ l # post) ending (STATE_WAITING_FOR_OWNER_PAIRING, ''OK'')
       = Inr (STATE_WAITING_FOR_OWNER_PAIRING, ''Owner Pairing was not started'')" .
  with assms(3) show ?thesis by (simp add: analyze_log_file_def)
qed

theorem scenario_out_of_order_witness:
  "events_of [''boot ok''] = [] \<and>
   extract_event ''Owner Pairing Complete!'' = Some EVENT_OWNER_PAIRING_COMPLETED \<and>
   analyze_log_file
     (\<lambda>_. ([''boot ok''] @ ''Owner Pairing Complete!'' # [''Owner Pairing Started''], None))
     ''c.log'' []
     = [[Str ''c.log'', Str ''FAILED'', Num 0, Str ''Owner Pairing was not started'']]"
  using scenario_out_of_order [where pre = "[''boot ok'']" and l = "''Owner Pairing Complete!''"
      and post = "[''Owner Pairing Started'']" and ending = None and p = "''c.log''"
      and fs = "\<lambda>_. ([''boot ok''] @ ''Owner Pairing Complete!'' # [''Owner Pairing Started''], None)"
      and report = "[]"]
  by (simp add: extract_event_def EXTRACTOR_PATTERNS_def basename_def STATE_defs)

subsection \<open>Exceptions while reading\<close>



subsection \<open>The terminal state and the diagnostic\<close>

text \<open>
  Claim C10. Whenever a scan from the initial state ends in
  \<open>STATE_OWNER_SWAP_SUCCESS\<close>, its diagnostic is \<open>OK\<close>; so the row says
  \<open>PASSED\<close> exactly when the final state is \<open>STATE_OWNER_SWAP_SUCCESS\<close>.
  The reason is that every transition whose result is that state returns \<open>OK\<close>.
\<close>

theorem success_implies_ok:
  assumes "scan_lines ls ending (STATE_WAITING_FOR_OWNER_PAIRING, ''OK'') = Inr (st, res)"
    and "fs p = (ls, ending)"
  shows "(st = STATE_OWNER_SWAP_SUCCESS \<longrightarrow> res = ''OK'') \<and>
         analyze_log_file fs p report =
           report @ [[Str (basename p),
                      Str (if st = STATE_OWNER_SWAP_SUCCESS then ''PASSED'' else ''FAILED''),
                      Num st, Str res]] \<and>
         (\<forall>e s. fst (owner_swap_state_machine e s) = STATE_OWNER_SWAP_SUCCESS \<longrightarrow>
                snd (owner_swap_state_machine e s) = ''OK'')"
proof -
  have ok: "st = STATE_OWNER_SWAP_SUCCESS \<longrightarrow> res = ''OK''"
    using scan_lines_success [of "(STATE_WAITING_FOR_OWNER_PAIRING, ''OK'')" ls ending res] assms(1)
    by auto
  with assms show ?thesis
    by (auto simp: analyze_log_file_def osm_enters_success)
qed

theorem success_implies_ok_witness:
  "scan_lines scenario_a_lines None (STATE_WAITING_FOR_OWNER_PAIRING, ''OK'')
     = Inr (STATE_OWNER_SWAP_SUCCESS, ''OK'') \<and>
   analyze_log_file (\<lambda>_. (scenario_a_lines, None)) ''/l/a.log'' []
     = [[Str ''a.log'', Str ''PASSED'', Num STATE_OWNER_SWAP_SUCCESS, Str ''OK'']]"
  using success_implies_ok [OF scenario_a_scan,
      where fs = "\<lambda>_. (scenario_a_lines, None)" and p = "''/l/a.log''" and report = "[]"]
    scenario_a_scan
  by (simp add: basename_def)

end
